theory Spec2Isabelle
  imports Main "HOL-Library.Word"
begin

unbundle bit_operations_syntax

section \<open>Shared data: hashes, coins, transactions, blocks\<close>

text \<open>
  Hashes are hexadecimal strings, as in the source (\<open>tx.hash('hex')\<close>).  Buffers are
  lists of bytes.
\<close>

type_synonym hash = string
type_synonym byte = "8 word"
type_synonym bytes = "byte list"

record coin =
  coin_version :: int
  coin_height :: int
  coin_value :: int
  coin_script :: bytes
  coin_coinbase :: bool
  coin_hash :: hash
  coin_index :: nat

text \<open>An input with its outpoint and, once filled, the coin it spends.\<close>

record txin =
  prevout_hash :: hash
  prevout_index :: nat
  in_coin :: "coin option"

record txout =
  out_value :: int
  out_script :: bytes

record tx =
  tx_hash :: hash
  inputs :: "txin list"
  outputs :: "txout list"

record block =
  block_hash :: hash
  block_height :: int
  txs :: "tx list"

definition NULL_HASH :: hash where
  "NULL_HASH = replicate 64 (CHR ''0'')"

text \<open>\<open>TX.prototype.isCoinbase\<close>: a single input whose outpoint hash is the null hash.\<close>

definition isCoinbase :: "tx \<Rightarrow> bool" where
  "isCoinbase t = (length (inputs t) = 1 \<and> prevout_hash (hd (inputs t)) = NULL_HASH)"

text \<open>
  The serialisers and script predicates that the database code calls live in files that
  are not among the sources (coin.js, the coin writer of the framer, script.js of the same
  version).  They are parameters, collected in one record.
\<close>

record codec =
  coin_toRaw :: "coin \<Rightarrow> bytes"
  framer_coin :: "coin \<Rightarrow> bytes"
  coin_fromTX :: "tx \<Rightarrow> nat \<Rightarrow> coin"
  tx_toExtended :: "tx \<Rightarrow> bytes"
  block_render :: "block \<Rightarrow> bytes"
  isUnspendable :: "bytes \<Rightarrow> bool"
  tx_getHashes :: "tx \<Rightarrow> string list"
  input_getHash :: "txin \<Rightarrow> string option"
  output_getHash :: "txout \<Rightarrow> string option"

text \<open>
  Database keys.  The source builds them as strings, a one- or two-character prefix
  followed by fixed-width hexadecimal hashes, zero-padded heights and decimal indexes;
  one constructor per prefix keeps exactly that information.
\<close>

datatype dbkey =
    K_R
  | K_e hash
  | K_h hash
  | K_H nat
  | K_n hash
  | K_b hash
  | K_bq nat
  | K_t hash
  | K_c hash nat
  | K_u hash
  | K_T string hash
  | K_C string hash nat
  | K_m int hash
  | K_s hash nat

type_synonym db = "dbkey \<rightharpoonup> bytes"

text \<open>A write batch: the operations are applied in the order they were queued.\<close>

datatype batch_op = Put dbkey bytes | Del dbkey

fun apply_op :: "db \<Rightarrow> batch_op \<Rightarrow> db" where
  "apply_op d (Put k v) = d(k \<mapsto> v)"
| "apply_op d (Del k) = d(k := None)"

definition batch_write :: "db \<Rightarrow> batch_op list \<Rightarrow> db" where
  "batch_write d ops = foldl apply_op d ops"


section \<open>Wire framing (protocol/framer.js, utils.js)\<close>

text \<open>
  JavaScript arrays are modelled as lists of optional elements: \<open>None\<close> is a hole
  (\<open>new Array(24)\<close> creates 24 of them).  An indexed store beyond the end extends the
  array, as it does in JavaScript.
\<close>

type_synonym 'a jsarray = "'a option list"

definition js_set :: "'a jsarray \<Rightarrow> nat \<Rightarrow> 'a \<Rightarrow> 'a jsarray" where
  "js_set xs i v =
     (if i < length xs then xs[i := Some v]
      else xs @ replicate (i - length xs) None @ [Some v])"

text \<open>\<open>utils.writeU32\<close>: the four stores are made in the order of the source.
  \<open>num >>> k\<close> converts to an unsigned 32-bit integer first; \<open>& 0xff\<close> keeps the low byte.\<close>

definition writeU32 :: "nat jsarray \<Rightarrow> nat \<Rightarrow> nat \<Rightarrow> nat jsarray \<times> nat" where
  "writeU32 dst num off =
     (let dst = js_set dst (off + 3) (((num mod 2 ^ 32) div 2 ^ 24) mod 256);
          dst = js_set dst (off + 2) (((num mod 2 ^ 32) div 2 ^ 16) mod 256);
          dst = js_set dst (off + 1) (((num mod 2 ^ 32) div 2 ^ 8) mod 256);
          dst = js_set dst off (num mod 256)
      in (dst, 4))"

text \<open>\<open>utils.writeAscii\<close>: the loop over the characters of \<open>str\<close>, with the running index.\<close>

fun writeAscii_loop :: "nat jsarray \<Rightarrow> string \<Rightarrow> nat \<Rightarrow> nat \<Rightarrow> nat jsarray \<times> nat" where
  "writeAscii_loop dst [] off i = (dst, i)"
| "writeAscii_loop dst (c # cs) off i =
     writeAscii_loop (js_set dst (off + i) (of_char c mod 256)) cs off (Suc i)"

definition writeAscii :: "nat jsarray \<Rightarrow> string \<Rightarrow> nat \<Rightarrow> nat jsarray \<times> nat" where
  "writeAscii dst str off = writeAscii_loop dst str off 0"

text \<open>\<open>utils.copy\<close> on plain arrays, without \<open>force\<close>: at most \<open>dst.length - off\<close>
  elements are copied.\<close>

definition copy :: "nat list \<Rightarrow> nat jsarray \<Rightarrow> nat \<Rightarrow> nat jsarray \<times> nat" where
  "copy src dst off =
     (let len = min (length dst - off) (length src)
      in (foldl (\<lambda>d i. js_set d (i + off) (src ! i)) dst [0..<len], len))"

text \<open>The hash primitive comes from the runtime's \<open>crypto\<close> module; it is a parameter.\<close>

definition dsha256 :: "(nat list \<Rightarrow> nat list) \<Rightarrow> nat list \<Rightarrow> nat list" where
  "dsha256 sha256 data = sha256 (sha256 data)"

definition checksum :: "(nat list \<Rightarrow> nat list) \<Rightarrow> nat list \<Rightarrow> nat list" where
  "checksum sha256 data = take 4 (dsha256 sha256 data)"

text \<open>The padding loop of \<open>Framer.prototype.header\<close>: \<open>for (i = 4 + len; i < 4 + 12; i++) h[i] = 0\<close>.\<close>

definition pad_loop :: "nat jsarray \<Rightarrow> nat \<Rightarrow> nat jsarray" where
  "pad_loop h start = foldl (\<lambda>h i. js_set h i 0) h [start..<4 + 12]"

text \<open>\<open>Framer.prototype.header\<close>; a failed \<open>assert\<close> throws, which is \<open>None\<close>.
  \<open>magic\<close> is \<open>network.magic\<close>.\<close>

definition header :: "nat \<Rightarrow> (nat list \<Rightarrow> nat list) \<Rightarrow> string \<Rightarrow> nat list \<Rightarrow> nat jsarray option" where
  "header magic sha256 cmd payload =
     (if \<not> length cmd < 12 then None
      else if \<not> length payload \<le> 0xffffffff then None
      else
        let h = replicate 24 None;
            h = fst (writeU32 h magic 0);
            (h, len) = writeAscii h cmd 4;
            h = pad_loop h (4 + len);
            h = fst (writeU32 h (length payload) 16);
            h = fst (copy (checksum sha256 payload) h 20)
        in Some h)"

text \<open>\<open>Framer.prototype.packet\<close>: the header followed by the payload.\<close>

definition packet :: "nat \<Rightarrow> (nat list \<Rightarrow> nat list) \<Rightarrow> string \<Rightarrow> nat list \<Rightarrow> nat jsarray option" where
  "packet magic sha256 cmd payload =
     (case header magic sha256 cmd payload of
        None \<Rightarrow> None
      | Some h \<Rightarrow> Some (h @ map Some payload))"

text \<open>The framing as the specification words it: an unsigned 32-bit integer in
  little-endian byte order, and the command padded with null bytes to 12 bytes.\<close>

definition u32le :: "nat \<Rightarrow> nat list" where
  "u32le n = [n mod 256, (n div 2 ^ 8) mod 256, (n div 2 ^ 16) mod 256, (n div 2 ^ 24) mod 256]"

definition padded_command :: "string \<Rightarrow> nat list" where
  "padded_command cmd = map of_char cmd @ replicate (12 - length cmd) 0"

section \<open>Peer pool: ban scoring and reject propagation (pool.js, errors.js)\<close>

text \<open>
  Peers are objects that the pool mutates through references, so they live in a store
  indexed by reference.  \<open>destroyed\<close> records that \<open>peer.destroy()\<close> was called.
\<close>

record peer =
  host :: string
  banScore :: int
  destroyed :: bool

text \<open>The payload handed to \<open>peer.reject\<close>, which writes the \<open>reject\<close> packet.\<close>

record reject_payload =
  message :: "string option"
  ccode :: string
  reason :: "string option"
  data :: "string option"

text \<open>What the handlers do besides changing the ban state, in the order they do it.\<close>

datatype event =
    SentReject nat reject_payload
  | CalledSetMisbehavior nat int
  | RejectsAdd string
  | InvFilterAdd nat string
  | TxFilterAdd string
  | ScheduleRequests nat
  | ResolveOrphan nat string
  | EmitTX string nat
  | EmitChainProgress nat

record pool =
  peers :: "nat \<Rightarrow> peer"
  peer_map :: "string \<rightharpoonup> nat"
  misbehaving :: "string \<rightharpoonup> int"
  leeches :: "nat list"
  maxLeeches :: nat
  pool_destroyed :: bool
  options_headers :: bool
  has_mempool :: bool
  trace :: "event list"

text \<open>\<open>Pool.prototype.setMisbehavior\<close>.  \<open>BAN_SCORE\<close> is \<open>constants.BAN_SCORE\<close> and
  \<open>now\<close> the value of \<open>utils.now()\<close> at the call.\<close>

definition setMisbehavior :: "int \<Rightarrow> int \<Rightarrow> pool \<Rightarrow> nat \<Rightarrow> int \<Rightarrow> bool \<times> pool" where
  "setMisbehavior BAN_SCORE now pl p score =
     (let pr = (peers pl p)\<lparr>banScore := banScore (peers pl p) + score\<rparr>;
          pl = pl\<lparr>peers := (peers pl)(p := pr)\<rparr>
      in if banScore pr \<ge> BAN_SCORE
         then (True, pl\<lparr>misbehaving := (misbehaving pl)(host pr \<mapsto> now),
                         peers := (peers pl)(p := pr\<lparr>destroyed := True\<rparr>)\<rparr>)
         else (False, pl))"








text \<open>The object a peer sent: a transaction (with its \<open>ts\<close>) or a block, with its hash.\<close>

datatype item = TX string int | Block string

fun item_hash :: "item \<Rightarrow> string" where
  "item_hash (TX h ts) = h"
| "item_hash (Block h) = h"

fun item_type :: "item \<Rightarrow> string" where
  "item_type (TX h ts) = ''tx''"
| "item_type (Block h) = ''block''"

definition log_event :: "event \<Rightarrow> pool \<Rightarrow> pool" where
  "log_event e pl = pl\<lparr>trace := trace pl @ [e]\<rparr>"

text \<open>
  Modelled from the spec: the methods \<open>setMisbehavior\<close> and \<open>sendReject\<close> of a peer
  (peer.js is not among the sources) hand the call to the pool that owns the peer,
  \<open>Pool.setMisbehavior(peer, score)\<close> and \<open>Pool.reject(peer, obj, code, reason, score)\<close>;
  \<open>peer.reject\<close> writes the \<open>reject\<close> packet.  The calls are recorded in the trace.
\<close>

definition peer_setMisbehavior :: "int \<Rightarrow> int \<Rightarrow> pool \<Rightarrow> nat \<Rightarrow> int \<Rightarrow> pool" where
  "peer_setMisbehavior BAN_SCORE now pl p score =
     snd (setMisbehavior BAN_SCORE now (log_event (CalledSetMisbehavior p score) pl) p score)"

definition peer_reject :: "pool \<Rightarrow> nat \<Rightarrow> reject_payload \<Rightarrow> pool" where
  "peer_reject pl p payload = log_event (SentReject p payload) pl"

text \<open>\<open>Pool.prototype.reject\<close>; \<open>score != null\<close> is modelled by the option.\<close>

definition reject ::
  "int \<Rightarrow> int \<Rightarrow> pool \<Rightarrow> nat \<Rightarrow> item option \<Rightarrow> string \<Rightarrow> string option \<Rightarrow> int option \<Rightarrow> pool" where
  "reject BAN_SCORE now pl p obj code rsn score =
     (let pl = (case obj of
                  Some it \<Rightarrow>
                    log_event (RejectsAdd (item_hash it))
                      (peer_reject pl p
                         \<lparr>message = Some (item_type it), ccode = code, reason = rsn,
                          data = Some (item_hash it)\<rparr>)
                | None \<Rightarrow>
                    peer_reject pl p
                      \<lparr>message = None, ccode = code, reason = rsn, data = None\<rparr>)
      in case score of
           None \<Rightarrow> pl
         | Some s \<Rightarrow> peer_setMisbehavior BAN_SCORE now pl p s)"

definition peer_sendReject ::
  "int \<Rightarrow> int \<Rightarrow> pool \<Rightarrow> nat \<Rightarrow> item \<Rightarrow> string \<Rightarrow> string option \<Rightarrow> int \<Rightarrow> pool" where
  "peer_sendReject BAN_SCORE now pl p obj code rsn score =
     reject BAN_SCORE now pl p (Some obj) code rsn (Some score)"



text \<open>Observers of a trace: the reject packets written to a peer and the scores with
  which \<open>setMisbehavior\<close> was called on it, in order.\<close>

fun rejects_sent :: "nat \<Rightarrow> event list \<Rightarrow> reject_payload list" where
  "rejects_sent p [] = []"
| "rejects_sent p (SentReject q payload # es) =
     (if q = p then payload # rejects_sent p es else rejects_sent p es)"
| "rejects_sent p (e # es) = rejects_sent p es"

fun misbehavior_calls :: "nat \<Rightarrow> event list \<Rightarrow> int list" where
  "misbehavior_calls p [] = []"
| "misbehavior_calls p (CalledSetMisbehavior q s # es) =
     (if q = p then s # misbehavior_calls p es else misbehavior_calls p es)"
| "misbehavior_calls p (e # es) = misbehavior_calls p es"



section \<open>Mempool: dynamic minimum fee rate (mempool.js)\<close>

















section \<open>Script interpreter (script.js)\<close>

text \<open>
  A decoded script is an array whose elements are byte arrays (data pushes), number
  literals (\<open>OP_1\<close> .. \<open>OP_16\<close>, and bytes outside the opcode table) and opcode names.
  \<open>script.decode\<close> hangs a hidden \<open>pushdata\<close> property on the arrays it reads: the
  push opcode used (\<open>null\<close> for a direct push of 1 to 75 bytes) and the encoded length.
  Every string of a script is an opcode name; no opcode name is a numeral, so the
  numeric comparisons of the interpreter are false for a string.
\<close>

datatype pushcode = Pushdata1 | Pushdata2 | Pushdata4

record pushdata =
  pd_opcode :: "pushcode option"
  pd_len :: nat

datatype opcode = Data "int list" "pushdata option" | Num int | Op string

text \<open>The flags object: a property is \<open>true\<close>, \<open>false\<close> or absent.\<close>

record flags =
  minimaldata :: "bool option"
  sigpushonly :: "bool option"
  verifyp2sh :: "bool option"
  cleanstack :: "bool option"
  discourage_nops :: "bool option"

definition no_flags :: flags where
  "no_flags = \<lparr>minimaldata = None, sigpushonly = None, verifyp2sh = None,
                cleanstack = None, discourage_nops = None\<rparr>"

text \<open>\<open>constants.script\<close>, \<open>constants.opcodesByVal\<close> and the hash functions of
  \<open>utils\<close> backed by the crypto library.\<close>

record script_env =
  maxOps :: nat
  maxPush :: nat
  maxStack :: nat
  opcodesByVal :: "int \<Rightarrow> string option"
  h_ripemd160 :: "int list \<Rightarrow> int list"
  h_sha1 :: "int list \<Rightarrow> int list"
  h_sha256 :: "int list \<Rightarrow> int list"

text \<open>The main stack is an array, the top at the end; the alt stack is its \<open>alt\<close>
  property, which \<open>execute\<close> creates empty when it is absent.\<close>

record stack =
  items :: "int list list"
  alt :: "int list list"

definition stack_push :: "int list \<Rightarrow> stack \<Rightarrow> stack" where
  "stack_push v st = st\<lparr>items := items st @ [v]\<rparr>"

definition stack_top :: "stack \<Rightarrow> int list" where
  "stack_top st = last (items st)"

definition stack_pop :: "stack \<Rightarrow> stack" where
  "stack_pop st = st\<lparr>items := butlast (items st)\<rparr>"

definition slice :: "'a list \<Rightarrow> nat \<Rightarrow> nat \<Rightarrow> 'a list" where
  "slice xs i j = take (j - i) (drop i xs)"

definition splice :: "nat \<Rightarrow> nat \<Rightarrow> 'a list \<Rightarrow> 'a list" where
  "splice i n xs = take i xs @ drop (i + n) xs"

subsection \<open>script.decode\<close>

text \<open>
  \<open>utils.readU16\<close> and \<open>utils.readU32\<close> on an array of bytes; an element past the end is
  \<open>undefined\<close>, which the bitwise operators read as 0 and the multiplication of
  \<open>readU32\<close> turns into \<open>NaN\<close> (\<open>None\<close>).
\<close>

definition elt :: "int list \<Rightarrow> nat \<Rightarrow> int" where
  "elt arr i = (if i < length arr then arr ! i else 0)"

definition readU16 :: "int list \<Rightarrow> nat \<Rightarrow> int" where
  "readU16 arr off = elt arr off + elt arr (off + 1) * 2 ^ 8"

definition readU32 :: "int list \<Rightarrow> nat \<Rightarrow> int option" where
  "readU32 arr off =
     (if off + 3 < length arr
      then Some (elt arr off + elt arr (off + 1) * 2 ^ 8 + elt arr (off + 2) * 2 ^ 16
                 + arr ! (off + 3) * 0x1000000)
      else None)"

definition opcode_or :: "string option \<Rightarrow> int \<Rightarrow> opcode" where
  "opcode_or opc b = (case opc of None \<Rightarrow> Num b
                      | Some nm \<Rightarrow> if nm = [] then Num b else Op nm)"

definition pushed :: "int list \<Rightarrow> nat \<Rightarrow> pushcode option \<Rightarrow> nat \<Rightarrow> opcode" where
  "pushed s i opc len = Data (slice s i (i + len)) (Some \<lparr>pd_opcode = opc, pd_len = len\<rparr>)"

function decode_loop :: "(int \<Rightarrow> string option) \<Rightarrow> int list \<Rightarrow> nat \<Rightarrow> opcode list option" where
  "decode_loop tbl s i =
     (if \<not> i < length s then Some []
      else
        let b = s ! i; j = i + 1 in
        if 1 \<le> b \<and> b \<le> 0x4b then
          map_option ((#) (pushed s j None (nat b))) (decode_loop tbl s (j + nat b))
        else if b = 0 then
          map_option ((#) (Data [] None)) (decode_loop tbl s j)
        else if 0x51 \<le> b \<and> b \<le> 0x60 then
          map_option ((#) (Num (b - 0x50))) (decode_loop tbl s j)
        else if j \<ge> length s then
          map_option ((#) (opcode_or (tbl b) b)) (decode_loop tbl s j)
        else if tbl b = Some ''pushdata1'' then
          (let len = nat (s ! j) in
           map_option ((#) (pushed s (j + 1) (Some Pushdata1) len))
             (decode_loop tbl s (j + 1 + len)))
        else if tbl b = Some ''pushdata2'' then
          (let len = nat (readU16 s j) in
           map_option ((#) (pushed s (j + 2) (Some Pushdata2) len))
             (decode_loop tbl s (j + 2 + len)))
        else if tbl b = Some ''pushdata4'' then
          (case readU32 s j of
             None \<Rightarrow> None
           | Some l \<Rightarrow>
               let len = nat l in
               map_option ((#) (pushed s (j + 4) (Some Pushdata4) len))
                 (decode_loop tbl s (j + 4 + len)))
        else
          map_option ((#) (opcode_or (tbl b) b)) (decode_loop tbl s j))"
  by pat_completeness auto
termination
  by (relation "measure (\<lambda>(tbl, s, i). length s - i)") auto

declare decode_loop.simps [simp del]

text \<open>The elements of the array are taken to be bytes; the decoding of an array that
  holds another number is outside the model (\<open>None\<close>).\<close>

definition decode :: "(int \<Rightarrow> string option) \<Rightarrow> int list \<Rightarrow> opcode list option" where
  "decode tbl s =
     (if list_all (\<lambda>b. 0 \<le> b \<and> b \<le> 255) s then decode_loop tbl s 0 else None)"

subsection \<open>script.bool, script.checkPush, script._next\<close>

fun script_bool :: "int list \<Rightarrow> bool" where
  "script_bool [] = False"
| "script_bool (v # vs) = (if v \<noteq> 0 then \<not> (vs = [] \<and> v = 0x80) else script_bool vs)"

text \<open>
  \<open>checkPush(op, value, flags)\<close>.  An argument is what the caller passes in that position:
  a byte array, a flags object, or nothing.  \<open>value.length\<close> and \<open>value[0]\<close> are
  \<open>undefined\<close> on a flags object, and every comparison with \<open>undefined\<close> is false.
  After \<open>op = op.pushdata.opcode || op.pushdata.len\<close> the variable is a push opcode name or
  a length, so it is neither \<open>'0'\<close> nor \<open>'1negate'\<close>.
\<close>

datatype argument = Bytes "int list" | Flags flags

definition arg_length :: "argument \<Rightarrow> nat option" where
  "arg_length a = (case a of Bytes v \<Rightarrow> Some (length v) | Flags f \<Rightarrow> None)"

definition arg_elem0 :: "argument \<Rightarrow> int option" where
  "arg_elem0 a = (case a of Bytes v \<Rightarrow> (if v = [] then None else Some (v ! 0)) | Flags f \<Rightarrow> None)"

definition length_le :: "argument \<Rightarrow> nat \<Rightarrow> bool" where
  "length_le a n = (case arg_length a of None \<Rightarrow> False | Some l \<Rightarrow> l \<le> n)"

definition elem0_in :: "argument \<Rightarrow> int \<Rightarrow> int \<Rightarrow> bool" where
  "elem0_in a lo hi = (case arg_elem0 a of None \<Rightarrow> False | Some x \<Rightarrow> lo \<le> x \<and> x \<le> hi)"

fun op_pushdata :: "opcode \<Rightarrow> pushdata option" where
  "op_pushdata (Data d pd) = pd"
| "op_pushdata (Num n) = None"
| "op_pushdata (Op nm) = None"

definition checkPush :: "opcode \<Rightarrow> argument \<Rightarrow> flags option \<Rightarrow> bool" where
  "checkPush op value flags =
     (let flags = (case flags of None \<Rightarrow> no_flags | Some f \<Rightarrow> f) in
      if minimaldata flags = Some False then True
      else case op_pushdata op of
        None \<Rightarrow> True
      | Some pd \<Rightarrow>
          if arg_length value = Some 1 \<and> arg_elem0 value = Some 0 then False
          else if arg_length value = Some 1 \<and> elem0_in value 1 16 then
            pd_opcode pd = None \<and> 1 \<le> pd_len pd \<and> pd_len pd \<le> 16
          else if arg_length value = Some 1 \<and> arg_elem0 value = Some (- 1) then False
          else if length_le value 75 then
            pd_opcode pd = None \<and> Some (pd_len pd) = arg_length value
          else if length_le value 255 then pd_opcode pd = Some Pushdata1
          else if length_le value 65535 then pd_opcode pd = Some Pushdata2
          else True)"

text \<open>\<open>script._next(to, s, pc)\<close>: the loop runs while \<open>s[pc]\<close> is truthy; the result is
  \<open>None\<close> for -1.\<close>

fun truthy :: "opcode \<Rightarrow> bool" where
  "truthy (Data d pd) = True"
| "truthy (Num n) = (n \<noteq> 0)"
| "truthy (Op nm) = (nm \<noteq> [])"

definition enter :: "opcode \<Rightarrow> int \<Rightarrow> int" where
  "enter opc depth =
     (if opc = Op ''if'' \<or> opc = Op ''notif'' then depth + 1
      else if opc = Op ''else'' then depth - 1
      else if opc = Op ''endif'' then depth - 1
      else depth)"

definition leave :: "opcode \<Rightarrow> int \<Rightarrow> int" where
  "leave opc depth = (if opc = Op ''else'' then depth + 1 else depth)"

fun next_loop :: "string \<Rightarrow> opcode list \<Rightarrow> int \<Rightarrow> nat \<Rightarrow> nat option" where
  "next_loop to [] depth pc = None"
| "next_loop to (opc # rest) depth pc =
     (if \<not> truthy opc then None
      else if enter opc depth < 0 then None
      else if enter opc depth = 0 \<and> opc = Op to then Some pc
      else next_loop to rest (leave opc (enter opc depth)) (pc + 1))"

definition script_next :: "string \<Rightarrow> opcode list \<Rightarrow> nat \<Rightarrow> nat option" where
  "script_next to s pc = next_loop to (drop pc s) 0 pc"

subsection \<open>script.execute\<close>

text \<open>
  One pass of the \<open>switch\<close> for an opcode other than \<open>if\<close> and \<open>notif\<close>: the loop goes on
  with a new stack (\<open>break\<close>), or \<open>execute\<close> returns false with the stack as it is at
  that moment.  The arithmetic opcodes (on \<open>bn\<close> numbers), \<open>pick\<close>, \<open>roll\<close>, \<open>depth\<close>,
  \<open>size\<close>, the signature checks, \<open>checklocktimeverify\<close>, \<open>nop1\<close>, the remaining stack
  shuffles and the names outside the opcode table are outside the model.
\<close>

datatype outcome = Next stack | Fail stack | Unmodelled

definition nops :: "string list" where
  "nops = [''nop'', ''nop3'', ''nop4'', ''nop5'', ''nop6'', ''nop7'', ''nop8'', ''nop9'', ''nop10'']"

definition hash_op :: "(int list \<Rightarrow> int list) \<Rightarrow> stack \<Rightarrow> outcome" where
  "hash_op h st =
     (if length (items st) = 0 then Fail st
      else Next (stack_push (h (stack_top st)) (stack_pop st)))"

definition step :: "script_env \<Rightarrow> flags \<Rightarrow> string \<Rightarrow> stack \<Rightarrow> outcome" where
  "step E flags opn st =
     (let n = length (items st) in
      if opn \<in> set nops then
        (if discourage_nops flags \<noteq> Some False then Fail st else Next st)
      else if opn = ''1negate'' then Next (stack_push [- 1] st)
      else if opn = ''else'' then Fail st
      else if opn = ''endif'' then Fail st
      else if opn = ''verify'' then
        (if n = 0 then Fail st
         else if \<not> script_bool (stack_top st) then Fail (stack_pop st)
         else Next (stack_pop st))
      else if opn = ''return'' then Fail st
      else if opn = ''toaltstack'' then
        (if n = 0 then Fail st
         else Next ((stack_pop st)\<lparr>alt := alt st @ [stack_top st]\<rparr>))
      else if opn = ''fromaltstack'' then
        (if length (alt st) = 0 then Fail st
         else Next (stack_push (last (alt st)) (st\<lparr>alt := butlast (alt st)\<rparr>)))
      else if opn = ''ifdup'' then
        (if n = 0 then Fail st
         else if script_bool (stack_top st) then Next (stack_push (stack_top st) st)
         else Next st)
      else if opn = ''drop'' then
        (if n = 0 then Fail st else Next (stack_pop st))
      else if opn = ''dup'' then
        (if n = 0 then Fail st else Next (stack_push (stack_top st) st))
      else if opn = ''nip'' then
        (if n < 2 then Fail st else Next (st\<lparr>items := splice (n - 2) 1 (items st)\<rparr>))
      else if opn = ''over'' then
        (if n < 2 then Fail st else Next (stack_push (items st ! (n - 2)) st))
      else if opn = ''swap'' then
        (if n < 2 then Fail st
         else Next (st\<lparr>items := (items st)[n - 2 := items st ! (n - 1),
                                            n - 1 := items st ! (n - 2)]\<rparr>))
      else if opn = ''2drop'' then
        (if n < 2 then Fail st else Next (stack_pop (stack_pop st)))
      else if opn = ''2dup'' then
        (if n < 2 then Fail st
         else Next (stack_push (items st ! (n - 1)) (stack_push (items st ! (n - 2)) st)))
      else if opn = ''ripemd160'' then hash_op (h_ripemd160 E) st
      else if opn = ''sha1'' then hash_op (h_sha1 E) st
      else if opn = ''sha256'' then hash_op (h_sha256 E) st
      else if opn = ''hash256'' then hash_op (\<lambda>x. h_sha256 E (h_sha256 E x)) st
      else if opn = ''hash160'' then hash_op (\<lambda>x. h_ripemd160 E (h_sha256 E x)) st
      else if opn = ''equalverify'' \<or> opn = ''equal'' then
        (if n < 2 then Fail st
         else
           let res = (items st ! (n - 1) = items st ! (n - 2));
               st = stack_pop (stack_pop st)
           in if opn = ''equalverify'' then (if \<not> res then Fail st else Next st)
              else Next (stack_push (if res then [1] else []) st))
      else Unmodelled)"

text \<open>The two \<open>splice\<close> calls that cut the unused branch and the \<open>if\<close> out of the
  script; a negative delete count removes nothing.\<close>

definition if_splice :: "bool \<Rightarrow> nat option \<Rightarrow> nat \<Rightarrow> nat \<Rightarrow> opcode list \<Rightarrow> opcode list" where
  "if_splice val else_pos endif if_pos s =
     (if val then
        (case else_pos of
           None \<Rightarrow> splice if_pos 1 (splice endif 1 s)
         | Some e \<Rightarrow> splice if_pos 1 (splice e (nat (int endif - int e + 1)) s))
      else
        (case else_pos of
           None \<Rightarrow> splice if_pos (nat (int endif - int if_pos + 1)) s
         | Some e \<Rightarrow> splice if_pos (nat (int e - int if_pos + 1)) (splice endif 1 s)))"

text \<open>
  The loop \<open>for (pc = 0; pc < s.length; pc++)\<close> on the copy \<open>s\<close> of the script.  The result
  is what \<open>execute\<close> returns together with the stack it leaves behind (the caller's
  array is modified in place), or \<open>None\<close> when an opcode outside the model is reached.
  \<open>checkPush\<close> is called with two arguments, the push and the flags object.
\<close>

definition is_if :: "string \<Rightarrow> bool" where
  "is_if opn = (opn = ''if'' \<or> opn = ''notif'')"

definition is_notif :: "string \<Rightarrow> bool" where
  "is_notif opn = (opn = ''notif'')"

function exec_loop :: "script_env \<Rightarrow> flags \<Rightarrow> opcode list \<Rightarrow> nat \<Rightarrow> stack \<Rightarrow> (bool \<times> stack) option" where
  "exec_loop E flags s pc st =
     (if \<not> pc < length s then
        Some (\<not> length (items st) + length (alt st) > maxStack E, st)
      else
        case s ! pc of
          Data d pd \<Rightarrow>
            if length d > maxPush E then Some (False, st)
            else if \<not> checkPush (Data d pd) (Flags flags) None then Some (False, st)
            else exec_loop E flags s (pc + 1) (stack_push d st)
        | Num n \<Rightarrow>
            if 1 \<le> n \<and> n \<le> 16 then exec_loop E flags s (pc + 1) (stack_push [n] st)
            else Some (False, st)
        | Op opn \<Rightarrow>
            if is_if opn then
              (if length (items st) < 1 then Some (False, st)
               else
                 let val = script_bool (stack_top st);
                     st = stack_pop st;
                     val = (if is_notif opn then \<not> val else val)
                 in case script_next ''endif'' s pc of
                      None \<Rightarrow> Some (False, st)
                    | Some endif \<Rightarrow>
                        exec_loop E flags
                          (if_splice val (script_next ''else'' s pc) endif pc s) pc st)
            else
              (case step E flags opn st of
                 Next st \<Rightarrow> exec_loop E flags s (pc + 1) st
               | Fail st \<Rightarrow> Some (False, st)
               | Unmodelled \<Rightarrow> None))"
  by pat_completeness auto
termination
proof (relation "measure (\<lambda>(E, flags, s, pc, st). length s - pc)")
  have next_bound: "next_loop to xs depth pc = Some r \<Longrightarrow>
      pc \<le> r \<and> r < pc + length xs \<and> xs ! (r - pc) = Op to"
    for to xs depth pc r
  proof (induction xs arbitrary: depth pc)
    case Nil
    then show ?case by simp
  next
    case (Cons a xs)
    from Cons.prems
    have "(r = pc \<and> a = Op to) \<or> next_loop to xs (leave a (enter a depth)) (pc + 1) = Some r"
      by (simp split: if_splits)
    then show ?case
    proof
      assume "r = pc \<and> a = Op to"
      then show ?thesis by simp
    next
      assume "next_loop to xs (leave a (enter a depth)) (pc + 1) = Some r"
      from Cons.IH [OF this]
      have b: "pc + 1 \<le> r" "r < pc + 1 + length xs" "xs ! (r - (pc + 1)) = Op to"
        by simp_all
      from b have "r - pc = Suc (r - (pc + 1))"
        by simp
      with b show ?thesis
        by simp
    qed
  qed
  have shorter: "length (if_splice val (script_next ''else'' s pc) endif pc s) < length s"
    if "pc < length s" "s ! pc = Op opn" "is_if opn"
       "script_next ''endif'' s pc = Some endif"
    for val s pc endif opn
  proof -
    from that have opn: "opn = ''if'' \<or> opn = ''notif''"
      by (simp add: is_if_def)
    from next_bound [of "''endif''" "drop pc s" 0 pc endif] that
    have e: "pc \<le> endif" "endif < length s" "s ! endif = Op ''endif''"
      by (auto simp: script_next_def)
    with that opn have pe: "pc < endif"
      by (cases "endif = pc") auto
    show ?thesis
    proof (cases "script_next ''else'' s pc")
      case None
      with e pe that show ?thesis
        by (auto simp: if_splice_def splice_def)
    next
      case (Some el)
      from next_bound [of "''else''" "drop pc s" 0 pc el] Some that
      have l: "pc \<le> el" "el < length s" "s ! el = Op ''else''"
        by (auto simp: script_next_def)
      with that opn have "pc < el"
        by (cases "el = pc") auto
      with Some e pe l that show ?thesis
        by (auto simp: if_splice_def splice_def)
    qed
  qed
  show "((E, flags, if_splice val (script_next ''else'' s pc) endif pc s, pc, st'), E, flags, s, pc, st)
          \<in> measure (\<lambda>(E, flags, s, pc, st). length s - pc)"
    if "\<not> \<not> pc < length s" "s ! pc = Op opn" "is_if opn"
       "script_next ''endif'' s pc = Some endif"
    for E :: script_env and flags :: flags and s pc and st st' :: stack and val endif opn
    using shorter [of pc s opn endif val] that by simp
qed auto

declare exec_loop.simps [simp del]

definition script_execute :: "script_env \<Rightarrow> flags \<Rightarrow> opcode list \<Rightarrow> stack \<Rightarrow> (bool \<times> stack) option" where
  "script_execute E flags script st =
     (if length script > maxOps E then Some (False, st)
      else exec_loop E flags script 0 st)"

subsection \<open>script.verify\<close>

definition in_range_1_16 :: "int \<Rightarrow> bool" where
  "in_range_1_16 n = (1 \<le> n \<and> n \<le> 16)"

fun push_op :: "opcode \<Rightarrow> bool" where
  "push_op (Data d pd) = True"
| "push_op (Num n) = in_range_1_16 n"
| "push_op (Op nm) = (nm = ''1negate'')"

definition isPushOnly :: "opcode list \<Rightarrow> bool" where
  "isPushOnly s = list_all push_op s"

fun isHash :: "opcode \<Rightarrow> bool" where
  "isHash (Data d pd) = (length d = 20)"
| "isHash (Num n) = False"
| "isHash (Op nm) = False"

definition isScripthash :: "opcode list \<Rightarrow> bool" where
  "isScripthash s =
     (if length s \<noteq> 3 then False
      else s ! 0 = Op ''hash160'' \<and> isHash (s ! 1) \<and> s ! 2 = Op ''equal'')"

definition empty_stack :: stack where
  "empty_stack = \<lparr>items = [], alt = []\<rparr>"

text \<open>The final \<open>cleanstack\<close> test.\<close>

definition clean :: "flags \<Rightarrow> stack \<Rightarrow> bool" where
  "clean flags st = (if cleanstack flags \<noteq> Some False then items st = [] else True)"

text \<open>
  \<open>script.verify(input, output, tx, i, flags)\<close>; the transaction and the index only
  reach the signature opcodes.  The value returned by the first \<open>execute\<close> is dropped: only
  the stack it leaves is used.  \<open>copy\<close> is a fresh array, without the \<open>alt\<close> property.
  \<open>after_output\<close> is the part of \<open>verify\<close> that follows the execution of the output script.
\<close>

definition after_output :: "script_env \<Rightarrow> flags \<Rightarrow> opcode list \<Rightarrow> opcode list \<Rightarrow> stack \<Rightarrow> bool \<Rightarrow> stack \<Rightarrow> bool option" where
  "after_output E flags input output copied res st =
     (if \<not> res \<or> length (items st) = 0 \<or> \<not> script_bool (stack_top st) then Some False
      else
        let st = stack_pop st in
        if verifyp2sh flags \<noteq> Some False \<and> isScripthash output then
          (if \<not> isPushOnly input then Some False
           else if length (items copied) = 0 then Some False
           else
             case decode (opcodesByVal E) (stack_top copied) of
               None \<Rightarrow> None
             | Some redeem \<Rightarrow>
                 (case script_execute E flags redeem (stack_pop copied) of
                    None \<Rightarrow> None
                  | Some (res, st) \<Rightarrow>
                      if \<not> res \<or> length (items st) = 0 \<or> \<not> script_bool (stack_top st)
                      then Some False
                      else Some (clean flags (stack_pop st))))
        else Some (clean flags st))"

definition script_verify :: "script_env \<Rightarrow> flags \<Rightarrow> opcode list \<Rightarrow> opcode list \<Rightarrow> bool option" where
  "script_verify E flags input output =
     (if sigpushonly flags \<noteq> Some False \<and> \<not> isPushOnly input then Some False
      else
        case script_execute E flags input empty_stack of
          None \<Rightarrow> None
        | Some (ignored, st) \<Rightarrow>
            (case script_execute E flags output st of
               None \<Rightarrow> None
             | Some (res, st') \<Rightarrow>
                 after_output E flags input output \<lparr>items = items st, alt = []\<rparr> res st'))"

subsection \<open>Example values of the constants\<close>

text \<open>The limits and push opcodes of the Bitcoin protocol; the hash functions are not
  evaluated in the examples.\<close>

definition example_script_env :: script_env where
  "example_script_env =
     \<lparr>maxOps = 201, maxPush = 520, maxStack = 1000,
      opcodesByVal = (\<lambda>b. if b = 0x4c then Some ''pushdata1''
                          else if b = 0x4d then Some ''pushdata2''
                          else if b = 0x4e then Some ''pushdata4''
                          else None),
      h_ripemd160 = (\<lambda>x. x), h_sha1 = (\<lambda>x. x), h_sha256 = (\<lambda>x. x)\<rparr>"

definition minimaldata_flags :: flags where
  "minimaldata_flags = no_flags\<lparr>minimaldata := Some True\<rparr>"

definition if_else_script :: "opcode list" where
  "if_else_script =
     [Num 2, Op ''equal'', Op ''if'', Num 3, Op ''else'', Num 4, Op ''endif'', Num 5]"

text \<open>A push-only scriptSig whose second push is one byte longer than \<open>maxPush\<close>.\<close>

definition oversized_input :: "script_env \<Rightarrow> opcode list" where
  "oversized_input E = [Num 1, Data (replicate (Suc (maxPush E)) 0) None]"

section \<open>Chain store (chaindb.js)\<close>

record chain_entry =
  ce_hash :: hash
  ce_prevBlock :: hash
  ce_height :: int
  ce_raw :: bytes

record options =
  spv :: bool
  prune :: bool
  indexTX :: bool
  indexAddress :: bool
  keepBlocks :: int
  pruneAfterHeight :: int
  genesis_hash :: hash

text \<open>The database with the two caches in front of it.  The caches are bounded LRU
  maps in the source; eviction is not part of this model, only presence.\<close>

record chaindb =
  db :: db
  cacheHash :: "hash \<rightharpoonup> chain_entry"
  cacheHeight :: "int \<rightharpoonup> chain_entry"

text \<open>
  What the code takes from the JavaScript runtime: the contents of a freshly allocated
  \<open>new Buffer(n)\<close>, the unsigned 32-bit value that a Buffer object coerces to when it is
  used as a number (\<open>+buf\<close>, then \<open>>>>\<close>), and the conversion between hexadecimal
  strings and Buffers.
\<close>

record runtime =
  fresh_buffer :: "nat \<Rightarrow> bytes"
  buffer_number :: "bytes \<Rightarrow> 32 word"
  from_hex :: "string \<Rightarrow> bytes"
  to_hex :: "bytes \<Rightarrow> string"

text \<open>\<open>buf.writeUInt32LE(value, offset, true)\<close> once \<open>value\<close> has been coerced to an
  unsigned 32-bit integer; with \<open>noAssert\<close> nothing is checked, and a store beyond the
  end of a Buffer is dropped.\<close>

definition buf_set :: "bytes \<Rightarrow> nat \<Rightarrow> byte \<Rightarrow> bytes" where
  "buf_set b i v = (if i < length b then b[i := v] else b)"

definition writeUInt32LE :: "bytes \<Rightarrow> 32 word \<Rightarrow> nat \<Rightarrow> bytes" where
  "writeUInt32LE b v off =
     (let b = buf_set b (off + 3) (ucast (drop_bit 24 v));
          b = buf_set b (off + 2) (ucast (drop_bit 16 v));
          b = buf_set b (off + 1) (ucast (drop_bit 8 v));
          b = buf_set b off (ucast v)
      in b)"

text \<open>\<open>buf.readUInt32LE(offset, true)\<close>; a read beyond the end yields \<open>undefined\<close>,
  which counts as 0 in the arithmetic.\<close>

definition buf_get :: "bytes \<Rightarrow> nat \<Rightarrow> 32 word" where
  "buf_get b i = (if i < length b then ucast (b ! i) else 0)"

definition readUInt32LE :: "bytes \<Rightarrow> nat \<Rightarrow> 32 word" where
  "readUInt32LE b off =
     buf_get b off + push_bit 8 (buf_get b (off + 1)) + push_bit 16 (buf_get b (off + 2))
       + push_bit 24 (buf_get b (off + 3))"

definition DUMMY :: bytes where
  "DUMMY = [0]"

text \<open>\<open>this.chain.isGenesis(block)\<close>.\<close>

definition isGenesis :: "options \<Rightarrow> block \<Rightarrow> bool" where
  "isGenesis opts blk = (block_hash blk = genesis_hash opts)"

text \<open>
  The input loop of \<open>connectBlock\<close>.  It carries the batch and the undo writer; a
  coinbase ends the loop at its first input, and a missing coin fails the assertion.
\<close>

fun connect_inputs ::
  "codec \<Rightarrow> options \<Rightarrow> tx \<Rightarrow> txin list \<Rightarrow> batch_op list \<times> bytes \<Rightarrow> (batch_op list \<times> bytes) option" where
  "connect_inputs cd opts t [] acc = Some acc"
| "connect_inputs cd opts t (i # ins) (batch, undo) =
     (if isCoinbase t then Some (batch, undo)
      else case in_coin i of
        None \<Rightarrow> None
      | Some c \<Rightarrow>
          let batch = (if indexAddress opts
                       then (case input_getHash cd i of
                               Some a \<Rightarrow> batch @ [Del (K_C a (prevout_hash i) (prevout_index i))]
                             | None \<Rightarrow> batch)
                       else batch);
              batch = batch @ [Del (K_c (prevout_hash i) (prevout_index i))];
              undo = undo @ framer_coin cd c
          in connect_inputs cd opts t ins (batch, undo))"

text \<open>The output loop of \<open>connectBlock\<close>, with the output index \<open>j\<close>.\<close>

fun connect_outputs ::
  "codec \<Rightarrow> options \<Rightarrow> tx \<Rightarrow> txout list \<Rightarrow> nat \<Rightarrow> batch_op list \<Rightarrow> batch_op list" where
  "connect_outputs cd opts t [] j batch = batch"
| "connect_outputs cd opts t (out # outs) j batch =
     (if isUnspendable cd (out_script out) then connect_outputs cd opts t outs (Suc j) batch
      else
        let batch = (if indexAddress opts
                     then (case output_getHash cd out of
                             Some a \<Rightarrow> batch @ [Put (K_C a (tx_hash t) j) DUMMY]
                           | None \<Rightarrow> batch)
                     else batch);
            batch = batch @ [Put (K_c (tx_hash t) j) (coin_toRaw cd (coin_fromTX cd t j))]
        in connect_outputs cd opts t outs (Suc j) batch)"

text \<open>The index writes made for each transaction when \<open>indexTX\<close> is set.\<close>

definition index_tx_puts :: "codec \<Rightarrow> options \<Rightarrow> tx \<Rightarrow> batch_op list \<Rightarrow> batch_op list" where
  "index_tx_puts cd opts t batch =
     (if indexTX opts
      then (let batch = batch @ [Put (K_t (tx_hash t)) (tx_toExtended cd t)]
            in if indexAddress opts
               then batch @ map (\<lambda>a. Put (K_T a (tx_hash t)) DUMMY) (tx_getHashes cd t)
               else batch)
      else batch)"


text \<open>The loop over the transactions of the block in \<open>connectBlock\<close>.\<close>

fun connect_txs ::
  "codec \<Rightarrow> options \<Rightarrow> tx list \<Rightarrow> batch_op list \<times> bytes \<Rightarrow> (batch_op list \<times> bytes) option" where
  "connect_txs cd opts [] acc = Some acc"
| "connect_txs cd opts (t # ts) (batch, undo) =
     (case connect_inputs cd opts t (inputs t) (index_tx_puts cd opts t batch, undo) of
        None \<Rightarrow> None
      | Some (batch, undo) \<Rightarrow>
          connect_txs cd opts ts (connect_outputs cd opts t (outputs t) 0 batch, undo))"

text \<open>\<open>ChainDB.prototype._pruneBlock\<close>.  It reads the pruning queue from the database
  as it is before the batch is written; a queue record that is not 32 bytes long fails
  the assertion.\<close>

definition pruneBlock ::
  "runtime \<Rightarrow> options \<Rightarrow> db \<Rightarrow> block \<Rightarrow> batch_op list \<Rightarrow> batch_op list option" where
  "pruneBlock rt opts d blk batch =
     (if spv opts then Some batch
      else if \<not> prune opts then Some batch
      else if block_height blk \<le> pruneAfterHeight opts then Some batch
      else
        let batch = batch @ [Put (K_bq (nat (block_height blk + keepBlocks opts)))
                               (from_hex rt (block_hash blk))]
        in case d (K_bq (nat (block_height blk))) of
             None \<Rightarrow> Some batch
           | Some v \<Rightarrow>
               if length v \<noteq> 32 then None
               else let h = to_hex rt v
                    in Some (batch @ [Del (K_bq (nat (block_height blk))), Del (K_b h), Del (K_u h)]))"

text \<open>\<open>ChainDB.prototype.connectBlock\<close> for a block object: it returns the batch with the
  queued operations, or \<open>None\<close> when an assertion fails.\<close>

definition connectBlock ::
  "runtime \<Rightarrow> codec \<Rightarrow> options \<Rightarrow> db \<Rightarrow> block \<Rightarrow> batch_op list \<Rightarrow> batch_op list option" where
  "connectBlock rt cd opts d blk batch =
     (if spv opts then Some batch
      else if isGenesis opts blk then Some batch
      else case connect_txs cd opts (txs blk) (batch, []) of
        None \<Rightarrow> None
      | Some (batch, undo) \<Rightarrow>
          let batch = (if length undo > 0 then batch @ [Put (K_u (block_hash blk)) undo]
                       else batch)
          in pruneBlock rt opts d blk batch)"





text \<open>\<open>ChainDB.prototype.saveBlock\<close>.\<close>

definition saveBlock ::
  "runtime \<Rightarrow> codec \<Rightarrow> options \<Rightarrow> db \<Rightarrow> block \<Rightarrow> batch_op list \<Rightarrow> bool \<Rightarrow> batch_op list option" where
  "saveBlock rt cd opts d blk batch connect =
     (if spv opts then Some batch
      else
        let batch = batch @ [Put (K_b (block_hash blk)) (block_render cd blk)]
        in if \<not> connect then Some batch
           else connectBlock rt cd opts d blk batch)"

text \<open>
  \<open>ChainDB.prototype.save\<close>.  The value handed to \<open>writeUInt32LE\<close> is the variable
  \<open>height\<close>, which at that point holds the new Buffer itself.
\<close>

definition save ::
  "runtime \<Rightarrow> codec \<Rightarrow> options \<Rightarrow> chaindb \<Rightarrow> chain_entry \<Rightarrow> block \<Rightarrow> bool \<Rightarrow> chaindb option" where
  "save rt cd opts st entry blk connect =
     (if \<not> ce_height entry \<ge> 0 then None
      else
        let hash = from_hex rt (ce_hash entry);
            height = fresh_buffer rt 4;
            height = writeUInt32LE height (buffer_number rt height) 0;
            batch = [Put (K_h (ce_hash entry)) height, Put (K_e (ce_hash entry)) (ce_raw entry)];
            st = st\<lparr>cacheHash := (cacheHash st)(ce_hash entry \<mapsto> entry)\<rparr>
        in if \<not> connect then
             (case saveBlock rt cd opts (db st) blk batch False of
                None \<Rightarrow> None
              | Some batch \<Rightarrow> Some (st\<lparr>db := batch_write (db st) batch\<rparr>))
           else
             let st = st\<lparr>cacheHeight := (cacheHeight st)(ce_height entry \<mapsto> entry)\<rparr>;
                 batch = batch @ [Put (K_n (ce_prevBlock entry)) hash,
                                  Put (K_H (nat (ce_height entry))) hash,
                                  Put K_R hash]
             in case saveBlock rt cd opts (db st) blk batch True of
                  None \<Rightarrow> None
                | Some batch \<Rightarrow> Some (st\<lparr>db := batch_write (db st) batch\<rparr>))"

text \<open>\<open>ChainDB.prototype.getHeight\<close> for a hash string: the cache first, then the
  \<open>h/\<close> record, which must be 4 bytes long; -1 when there is none.\<close>

definition getHeight :: "chaindb \<Rightarrow> hash \<Rightarrow> int option" where
  "getHeight st h =
     (if h = NULL_HASH then Some (-1)
      else case cacheHash st h of
        Some e \<Rightarrow> Some (ce_height e)
      | None \<Rightarrow>
          (case db st (K_h h) of
             None \<Rightarrow> Some (-1)
           | Some v \<Rightarrow> if length v \<noteq> 4 then None else Some (uint (readUInt32LE v 0))))"

text \<open>The height record as the specification words it: the height as an unsigned
  32-bit little-endian integer.\<close>

definition u32le_bytes :: "int \<Rightarrow> bytes" where
  "u32le_bytes n =
     [word_of_int n, word_of_int (n div 2 ^ 8), word_of_int (n div 2 ^ 16),
      word_of_int (n div 2 ^ 24)]"





text \<open>
  Concrete parameters for evaluations: a runtime whose fresh Buffers are zero-filled and
  in which a Buffer coerces to \<open>NaN\<close> (so to 0 under \<open>>>>\<close>), and a toy coin codec.
\<close>

definition example_runtime :: runtime where
  "example_runtime =
     \<lparr>fresh_buffer = (\<lambda>n. replicate n 0),
      buffer_number = (\<lambda>b. 0),
      from_hex = (\<lambda>s. map of_char s),
      to_hex = (\<lambda>b. map (\<lambda>w. char_of (unat w)) b)\<rparr>"

definition example_codec :: codec where
  "example_codec =
     \<lparr>coin_toRaw = (\<lambda>c. word_of_int (coin_value c) # coin_script c),
      framer_coin = (\<lambda>c. [word_of_int (coin_value c), of_nat (length (coin_script c))] @ coin_script c),
      coin_fromTX = (\<lambda>t j. \<lparr>coin_version = 1, coin_height = 0,
                             coin_value = out_value (outputs t ! j),
                             coin_script = out_script (outputs t ! j),
                             coin_coinbase = isCoinbase t,
                             coin_hash = tx_hash t, coin_index = j\<rparr>),
      tx_toExtended = (\<lambda>t. map of_char (tx_hash t)),
      block_render = (\<lambda>b. map of_char (block_hash b)),
      isUnspendable = (\<lambda>s. case s of [] \<Rightarrow> False | b # _ \<Rightarrow> b = 0x6a),
      tx_getHashes = (\<lambda>t. []),
      input_getHash = (\<lambda>i. None),
      output_getHash = (\<lambda>out. None)\<rparr>"

definition example_options :: options where
  "example_options =
     \<lparr>spv = False, prune = False, indexTX = False, indexAddress = False,
      keepBlocks = 288, pruneAfterHeight = 0, genesis_hash = ''00''\<rparr>"

definition example_entry1 :: chain_entry where
  "example_entry1 = \<lparr>ce_hash = ''ab'', ce_prevBlock = ''00'', ce_height = 1, ce_raw = [1, 2, 3]\<rparr>"

definition coinbase_tx :: "hash \<Rightarrow> txout list \<Rightarrow> tx" where
  "coinbase_tx h outs =
     \<lparr>tx_hash = h,
      inputs = [\<lparr>prevout_hash = NULL_HASH, prevout_index = 4294967295, in_coin = None\<rparr>],
      outputs = outs\<rparr>"

definition example_block1 :: block where
  "example_block1 =
     \<lparr>block_hash = ''ab'', block_height = 1,
      txs = [coinbase_tx ''c1'' [\<lparr>out_value = 50, out_script = [0x51]\<rparr>]]\<rparr>"

definition empty_chaindb :: chaindb where
  "empty_chaindb = \<lparr>db = Map.empty, cacheHash = Map.empty, cacheHeight = Map.empty\<rparr>"






text \<open>The coin keys that the inputs and the spendable outputs of a transaction touch.\<close>

definition in_keys :: "txin list \<Rightarrow> dbkey set" where
  "in_keys ins = (\<lambda>i. K_c (prevout_hash i) (prevout_index i)) ` set ins"

definition out_keys :: "codec \<Rightarrow> tx \<Rightarrow> txout list \<Rightarrow> nat \<Rightarrow> dbkey set" where
  "out_keys cd t outs j =
     {K_c (tx_hash t) (j + m) | m. m < length outs \<and> \<not> isUnspendable cd (out_script (outs ! m))}"











section \<open>Properties of the wire framing\<close>

lemma js_set_in_range:
  "i < length xs \<Longrightarrow> js_set xs i v = take i xs @ Some v # drop (Suc i) xs"
  by (simp add: js_set_def upd_conv_take_nth_drop)

lemma length_js_set_in_range [simp]:
  "i < length xs \<Longrightarrow> length (js_set xs i v) = length xs"
  by (simp add: js_set_def)

lemma u32_byte:
  "k \<le> 24 \<Longrightarrow> ((n mod 2 ^ 32) div 2 ^ k) mod 256 = ((n::nat) div 2 ^ k) mod 256"
proof -
  assume k: "k \<le> 24"
  have "8 \<le> 32 - k" using k by simp
  then have "take_bit 8 (drop_bit k (take_bit 32 n)) = take_bit 8 (drop_bit k n)"
    by (simp add: drop_bit_take_bit min_def)
  then show ?thesis
    by (simp add: take_bit_eq_mod drop_bit_eq_div)
qed

lemma update4_block:
  assumes "off + 4 \<le> length xs"
  shows "xs[off + 3 := a, off + 2 := b, off + 1 := c, off := d]
           = take off xs @ [d, c, b, a] @ drop (off + 4) xs"
proof (rule nth_equalityI)
  show "length (xs[off + 3 := a, off + 2 := b, off + 1 := c, off := d])
          = length (take off xs @ [d, c, b, a] @ drop (off + 4) xs)"
    using assms by simp
next
  fix i
  assume "i < length (xs[off + 3 := a, off + 2 := b, off + 1 := c, off := d])"
  then have i: "i < length xs" by simp
  consider "i < off" | "i = off" | "i = off + 1" | "i = off + 2" | "i = off + 3" | "off + 4 \<le> i"
    by linarith
  then show "xs[off + 3 := a, off + 2 := b, off + 1 := c, off := d] ! i
               = (take off xs @ [d, c, b, a] @ drop (off + 4) xs) ! i"
  proof cases
    case 6
    then obtain j where j: "i = off + 4 + j" using le_Suc_ex by blast
    have l: "length (take off xs @ [d, c, b, a]) = off + 4" using assms by simp
    have "(take off xs @ [d, c, b, a] @ drop (off + 4) xs) ! i
            = ((take off xs @ [d, c, b, a]) @ drop (off + 4) xs) ! (length (take off xs @ [d, c, b, a]) + j)"
      by (simp only: l j append_assoc)
    also have "\<dots> = drop (off + 4) xs ! j"
      by (rule nth_append_length_plus)
    also have "\<dots> = xs ! i" using i j by simp
    finally show ?thesis using 6 i by simp
  qed (use assms i in \<open>simp_all add: nth_append min_def\<close>)
qed

lemmas u32_bytes = u32_byte [of 24, simplified] u32_byte [of 16, simplified]
  u32_byte [of 8, simplified]

lemma writeU32_block:
  assumes "off + 4 \<le> length xs"
  shows "fst (writeU32 xs n off) = take off xs @ map Some (u32le n) @ drop (off + 4) xs"
proof -
  have lens: "off < length xs" "off + 1 < length xs" "off + 2 < length xs" "off + 3 < length xs"
    using assms by simp_all
  have "fst (writeU32 xs n off)
          = xs[off + 3 := Some ((n div 2 ^ 24) mod 256), off + 2 := Some ((n div 2 ^ 16) mod 256),
               off + 1 := Some ((n div 2 ^ 8) mod 256), off := Some (n mod 256)]"
    using lens
    by (simp add: writeU32_def Let_def js_set_def u32_bytes)
  also have "\<dots> = take off xs @ map Some (u32le n) @ drop (off + 4) xs"
    by (simp only: update4_block [OF assms] u32le_def list.map)
  finally show ?thesis .
qed

lemma writeAscii_loop_block:
  "off + i + length cs \<le> length dst \<Longrightarrow>
   writeAscii_loop dst cs off i =
     (take (off + i) dst @ map (\<lambda>c. Some (of_char c)) cs @ drop (off + i + length cs) dst,
      i + length cs)"
proof (induction cs arbitrary: dst i)
  case Nil
  then show ?case by simp
next
  case (Cons c cs)
  have lt: "off + i < length dst" using Cons.prems by simp
  define d where "d = js_set dst (off + i) (of_char c)"
  have d: "d = take (off + i) dst @ Some (of_char c) # drop (Suc (off + i)) dst"
    using lt by (simp add: d_def js_set_in_range)
  have len: "off + Suc i + length cs \<le> length d" using Cons.prems lt by (simp add: d_def)
  have t: "take (off + Suc i) d = take (off + i) dst @ [Some (of_char c)]"
    using lt by (simp add: d min_def)
  have dr: "drop (off + Suc i + length cs) d = drop (off + i + length (c # cs)) dst"
    using lt Cons.prems by (simp add: d min_def add.commute add.left_commute)
  have "writeAscii_loop dst (c # cs) off i = writeAscii_loop d cs off (Suc i)"
    by (simp add: d_def)
  also have "\<dots> = (take (off + Suc i) d @ map (\<lambda>c. Some (of_char c)) cs
                      @ drop (off + Suc i + length cs) d, Suc i + length cs)"
    by (rule Cons.IH [OF len])
  finally show ?case by (simp only: t dr) simp
qed

lemma pad_loop_block:
  "start \<le> 16 \<Longrightarrow> 16 \<le> length h \<Longrightarrow>
   pad_loop h start = take start h @ replicate (16 - start) (Some 0) @ drop 16 h"
  unfolding pad_loop_def
proof (induction "16 - start" arbitrary: h start)
  case 0
  then show ?case by simp
next
  case (Suc k)
  then have lt: "start < 16" by simp
  have up: "[start..<4 + 12] = start # [Suc start..<4 + 12]"
    using lt by (simp add: upt_conv_Cons)
  have k: "k = 16 - Suc start" using Suc.hyps by simp
  define d where "d = js_set h start 0"
  have lt': "start < length h" using Suc.prems lt by simp
  have l: "16 \<le> length d" using Suc.prems lt by (simp add: d_def)
  have d: "d = take start h @ Some 0 # drop (Suc start) h"
    using lt' by (simp add: d_def js_set_in_range)
  have t: "take (Suc start) d = take start h @ [Some 0]"
    using lt' by (simp add: d min_def)
  have s16: "16 - start = Suc (15 - start)" using lt by simp
  have dr: "drop 16 d = drop 16 h"
    using lt lt' Suc.prems by (simp add: d min_def s16)
  have r: "replicate (16 - start) (Some (0::nat)) = Some 0 # replicate (16 - Suc start) (Some 0)"
    using lt by (metis Suc.hyps(2) k replicate_Suc)
  have "foldl (\<lambda>h i. js_set h i 0) h [start..<4 + 12]
        = foldl (\<lambda>h i. js_set h i 0) d [Suc start..<4 + 12]"
    by (simp only: up foldl_Cons d_def)
  also have "\<dots> = take (Suc start) d @ replicate (16 - Suc start) (Some 0) @ drop 16 d"
    using Suc.hyps(1) [OF k _ l] lt by simp
  finally show ?case by (simp only: t dr r) simp
qed

lemma copy_block:
  assumes "off + length src \<le> length dst"
  shows "fst (copy src dst off) = take off dst @ map Some src @ drop (off + length src) dst"
proof -
  have gen: "\<And>d. n \<le> length src \<Longrightarrow> off + length src \<le> length d \<Longrightarrow>
     foldl (\<lambda>d i. js_set d (i + off) (src ! i)) d [0..<n]
       = take off d @ map Some (take n src) @ drop (off + n) d" for n
  proof (induction n)
    case 0
    then show ?case by simp
  next
    case (Suc n)
    let ?f = "foldl (\<lambda>d i. js_set d (i + off) (src ! i)) d [0..<n]"
    have ih: "?f = take off d @ map Some (take n src) @ drop (off + n) d"
      using Suc by simp
    have len: "length ?f = length d" using Suc.prems by (simp add: ih min_def)
    have lt: "n + off < length ?f" using Suc.prems len by simp
    have "foldl (\<lambda>d i. js_set d (i + off) (src ! i)) d [0..<Suc n]
          = js_set ?f (n + off) (src ! n)" by simp
    also have "\<dots> = take (n + off) ?f @ Some (src ! n) # drop (Suc (n + off)) ?f"
      by (rule js_set_in_range [OF lt])
    also have "take (n + off) ?f = take off d @ map Some (take n src)"
      using Suc.prems by (simp add: ih min_def add.commute)
    also have "drop (Suc (n + off)) ?f = drop (off + Suc n) d"
      using Suc.prems by (simp add: ih min_def add.commute)
    finally show ?case
      using Suc.prems by (simp add: take_Suc_conv_app_nth)
  qed
  have m: "min (length dst - off) (length src) = length src" using assms by simp
  show ?thesis
    using gen [of "length src" dst] assms by (simp add: copy_def Let_def m)
qed


lemma length_u32le [simp]: "length (u32le n) = 4"
  by (simp add: u32le_def)

text \<open>
  Claim C8.  Every message produced by \<open>Framer.packet(cmd, payload)\<close> consists of, in
  order: the 4-byte network magic (little-endian), the 12-byte command padded with null
  bytes, the 4-byte little-endian payload length, the first 4 bytes of SHA-256d of the
  payload, and the payload bytes.  A message is produced when the two assertions of
  \<open>header\<close> hold; the digest of the runtime's SHA-256 has at least 4 bytes.
\<close>

theorem packet_layout:
  assumes cmd: "length cmd < 12"
    and len: "length payload \<le> 0xffffffff"
    and sha: "4 \<le> length (sha256 (sha256 payload))"
  shows "packet magic sha256 cmd payload =
           Some (map Some (u32le magic @ padded_command cmd @ u32le (length payload)
                           @ take 4 (sha256 (sha256 payload)) @ payload))"
proof -
  define M where "M = map Some (u32le magic)"
  define C where "C = map (\<lambda>c. Some (of_char c :: nat)) cmd"
  define Z where "Z = replicate (12 - length cmd) (Some (0::nat))"
  define L where "L = map Some (u32le (length payload))"
  define K where "K = map Some (checksum sha256 payload)"
  have lM: "length M = 4" and lC: "length C = length cmd" and lZ: "length Z = 12 - length cmd"
    and lL: "length L = 4"
    by (simp_all add: M_def C_def Z_def L_def)
  have lK: "length (checksum sha256 payload) = 4"
    using sha by (simp add: checksum_def dsha256_def)
  define h0 :: "nat jsarray" where "h0 = replicate 24 None"
  define h1 where "h1 = fst (writeU32 h0 magic 0)"
  define h2 where "h2 = fst (writeAscii h1 cmd 4)"
  define h3 where "h3 = pad_loop h2 (4 + length cmd)"
  define h4 where "h4 = fst (writeU32 h3 (length payload) 16)"
  define h5 where "h5 = fst (copy (checksum sha256 payload) h4 20)"
  have h1: "h1 = M @ replicate 20 None"
    unfolding h1_def by (subst writeU32_block) (simp_all add: h0_def M_def)
  have h2: "h2 = M @ C @ replicate (20 - length cmd) None"
    and n2: "snd (writeAscii h1 cmd 4) = length cmd"
    using cmd unfolding h2_def writeAscii_def
    by (subst writeAscii_loop_block; simp add: h1 lM C_def)+
  have h3: "h3 = M @ C @ Z @ replicate 8 None"
    using cmd unfolding h3_def
    by (subst pad_loop_block) (simp_all add: h2 lM lC Z_def)
  have h4: "h4 = M @ C @ Z @ L @ replicate 4 None"
    using cmd unfolding h4_def
    by (subst writeU32_block) (simp_all add: h3 lM lC lZ L_def)
  have h5: "h5 = M @ C @ Z @ L @ K"
    using cmd unfolding h5_def
    by (subst copy_block) (simp_all add: h4 lM lC lZ lL lK K_def)
  have hd: "header magic sha256 cmd payload = Some h5"
    using cmd len
    by (simp add: header_def Let_def split_beta h5_def h4_def h3_def h2_def h1_def h0_def n2 [unfolded h1_def h0_def])
  show ?thesis
    by (simp add: packet_def hd h5 M_def C_def Z_def L_def K_def padded_command_def
        checksum_def dsha256_def)
qed

theorem packet_layout_witness:
  "length ''ping'' < 12 \<and> length [1, 2, 3 :: nat] \<le> 0xffffffff
   \<and> 4 \<le> length ((\<lambda>d. replicate 32 (length d)) ((\<lambda>d. replicate 32 (length d)) [1, 2, 3 :: nat]))
   \<and> packet 0xD9B4BEF9 (\<lambda>d. replicate 32 (length d)) ''ping'' [1, 2, 3] =
       Some (map Some ([0xF9, 0xBE, 0xB4, 0xD9] @ [112, 105, 110, 103, 0, 0, 0, 0, 0, 0, 0, 0]
                        @ [3, 0, 0, 0] @ [32, 32, 32, 32] @ [1, 2, 3]))"
proof -
  have r8: "replicate 8 x = [x, x, x, x, x, x, x, x]" for x :: "nat option"
    by (simp add: numeral_eq_Suc)
  have r4: "replicate 4 x = [x, x, x, x]" for x :: "nat option"
    by (simp add: numeral_eq_Suc)
  show ?thesis
    using packet_layout [of "''ping''" "[1, 2, 3]" "\<lambda>d. replicate 32 (length d)" "0xD9B4BEF9"]
    by (simp add: u32le_def padded_command_def r8 r4)
qed

section \<open>Properties of the peer pool\<close>

lemma trace_setMisbehavior [simp]:
  "trace (snd (setMisbehavior B now pl p s)) = trace pl"
  by (simp add: setMisbehavior_def Let_def)

lemma options_headers_setMisbehavior [simp]:
  "options_headers (snd (setMisbehavior B now pl p s)) = options_headers pl"
  by (simp add: setMisbehavior_def Let_def)

lemma has_mempool_setMisbehavior [simp]:
  "has_mempool (snd (setMisbehavior B now pl p s)) = has_mempool pl"
  by (simp add: setMisbehavior_def Let_def)

lemma trace_peer_setMisbehavior [simp]:
  "trace (peer_setMisbehavior B now pl p s) = trace pl @ [CalledSetMisbehavior p s]"
  by (simp add: peer_setMisbehavior_def log_event_def)

lemma options_headers_peer_setMisbehavior [simp]:
  "options_headers (peer_setMisbehavior B now pl p s) = options_headers pl"
  by (simp add: peer_setMisbehavior_def log_event_def)

lemma trace_peer_sendReject [simp]:
  "trace (peer_sendReject B now pl p obj code rsn s) =
     trace pl @ [SentReject p \<lparr>message = Some (item_type obj), ccode = code, reason = rsn,
                                data = Some (item_hash obj)\<rparr>,
                 RejectsAdd (item_hash obj), CalledSetMisbehavior p s]"
  by (simp add: peer_sendReject_def reject_def peer_reject_def log_event_def Let_def)

lemma options_headers_peer_sendReject [simp]:
  "options_headers (peer_sendReject B now pl p obj code rsn s) = options_headers pl"
  by (simp add: peer_sendReject_def reject_def peer_reject_def log_event_def Let_def)

lemma rejects_sent_append [simp]:
  "rejects_sent p (xs @ ys) = rejects_sent p xs @ rejects_sent p ys"
  by (induction p xs rule: rejects_sent.induct) simp_all

lemma misbehavior_calls_append [simp]:
  "misbehavior_calls p (xs @ ys) = misbehavior_calls p xs @ misbehavior_calls p ys"
  by (induction p xs rule: misbehavior_calls.induct) simp_all

lemma has_mempool_peer_sendReject [simp]:
  "has_mempool (peer_sendReject B now pl p obj code rsn s) = has_mempool pl"
  by (simp add: peer_sendReject_def reject_def peer_reject_def peer_setMisbehavior_def
      log_event_def Let_def)






section \<open>Properties of the dynamic minimum fee rate\<close>












section \<open>Script interpreter: properties\<close>

text \<open>
  Called the way \<open>execute\<close> calls it, with the push and the flags object, \<open>checkPush\<close>
  reads the flags object as the pushed value and has no flags of its own: it accepts
  every push, whatever the flags are.
\<close>

lemma checkPush_as_called: "checkPush opc (Flags flags) None = True"
  by (simp add: checkPush_def no_flags_def arg_length_def arg_elem0_def length_le_def
      elem0_in_def split: option.splits)

text \<open>
  Claim C2 (MINIMALDATA).  The claim is that \<open>script.execute\<close> returns false for every
  script with a push that is not minimally encoded, unless the \<open>minimaldata\<close> flag is
  disabled.  The code does not do this: for every flags object, every payload \<open>d\<close> within
  \<open>maxPush\<close> and every push encoding \<open>pd\<close> recorded by \<open>decode\<close>, the script made of that
  one push executes successfully and leaves \<open>d\<close> on the stack, because the call
  \<open>checkPush(o, flags)\<close> made by \<open>execute\<close> always returns true.
\<close>

theorem nonminimal_push_accepted:
  assumes "length d \<le> maxPush E" and "1 \<le> maxOps E" and "1 \<le> maxStack E"
  shows "checkPush (Data d pd) (Flags flags) None
       \<and> script_execute E flags [Data d pd] empty_stack
           = Some (True, \<lparr>items = [d], alt = []\<rparr>)"
  using assms
  by (simp add: checkPush_as_called script_execute_def exec_loop.simps [of _ _ _ 0]
      exec_loop.simps [of _ _ _ "Suc 0"] empty_stack_def stack_push_def)

text \<open>
  The bytes \<open>4c 01 05\<close> decode to the one-byte payload \<open>05\<close> pushed with \<open>PUSHDATA1\<close>.  With
  the \<open>minimaldata\<close> flag set the script executes successfully, although \<open>checkPush\<close>
  rejects the push when it is given the payload and the flags.
\<close>

theorem nonminimal_push_accepted_witness:
  "decode (opcodesByVal example_script_env) [0x4c, 1, 5]
     = Some [Data [5] (Some \<lparr>pd_opcode = Some Pushdata1, pd_len = 1\<rparr>)]
   \<and> minimaldata minimaldata_flags = Some True
   \<and> length [5 :: int] \<le> maxPush example_script_env
   \<and> 1 \<le> maxOps example_script_env \<and> 1 \<le> maxStack example_script_env
   \<and> script_execute example_script_env minimaldata_flags
         [Data [5] (Some \<lparr>pd_opcode = Some Pushdata1, pd_len = 1\<rparr>)] empty_stack
       = Some (True, \<lparr>items = [[5]], alt = []\<rparr>)
   \<and> \<not> checkPush (Data [5] (Some \<lparr>pd_opcode = Some Pushdata1, pd_len = 1\<rparr>)) (Bytes [5])
         (Some minimaldata_flags)"
  using nonminimal_push_accepted [of "[5]" example_script_env
      "Some \<lparr>pd_opcode = Some Pushdata1, pd_len = 1\<rparr>" minimaldata_flags]
  by (simp add: example_script_env_def minimaldata_flags_def no_flags_def decode_def
      decode_loop.simps pushed_def slice_def checkPush_def arg_length_def arg_elem0_def
      length_le_def elem0_in_def)

text \<open>
  Claim C9 (IF/ELSE scenario).  With the main stack \<open>[1, 2]\<close>, the script
  \<open>OP_2 OP_EQUAL OP_IF OP_3 OP_ELSE OP_4 OP_ENDIF OP_5\<close> executes successfully, for every
  flags object, provided the limits admit a script of 8 elements and a stack of 3; the
  final stack is \<open>[1, 3, 5]\<close> and its top element is truthy.
\<close>

theorem if_else_scenario:
  assumes "8 \<le> maxOps E" and "3 \<le> maxStack E"
  shows "script_execute E flags if_else_script \<lparr>items = [[1], [2]], alt = []\<rparr>
           = Some (True, \<lparr>items = [[1], [3], [5]], alt = []\<rparr>)
       \<and> script_bool (stack_top \<lparr>items = [[1], [3], [5]], alt = []\<rparr>)"
  using assms
  by (simp add: if_else_script_def script_execute_def exec_loop.simps stack_push_def
      stack_pop_def stack_top_def step_def nops_def is_if_def is_notif_def script_next_def
      enter_def leave_def if_splice_def splice_def)

theorem if_else_scenario_witness:
  "8 \<le> maxOps example_script_env \<and> 3 \<le> maxStack example_script_env
   \<and> script_execute example_script_env no_flags if_else_script
         \<lparr>items = [[1], [2]], alt = []\<rparr>
       = Some (True, \<lparr>items = [[1], [3], [5]], alt = []\<rparr>)
   \<and> script_bool [5]"
  using if_else_scenario [of example_script_env no_flags]
  by (simp add: example_script_env_def stack_top_def)

text \<open>
  Claim C10 (the result of the scriptSig is dropped).  There are pairs of scripts for
  which the execution of the scriptSig fails and \<open>script.verify\<close> returns true: with the
  default flags, the push-only scriptSig \<open>OP_1\<close> followed by a push one byte longer than
  \<open>maxPush\<close> fails at that push, leaving \<open>[1]\<close> on the stack, and \<open>verify\<close> with the empty
  output script returns true.
\<close>

theorem verify_ignores_input_result:
  assumes "2 \<le> maxOps E" and "1 \<le> maxStack E"
  shows "script_execute E no_flags (oversized_input E) empty_stack
           = Some (False, \<lparr>items = [[1]], alt = []\<rparr>)
       \<and> script_verify E no_flags (oversized_input E) [] = Some True"
  using assms
  by (simp add: oversized_input_def script_verify_def after_output_def script_execute_def
      exec_loop.simps stack_push_def stack_pop_def stack_top_def empty_stack_def no_flags_def
      isPushOnly_def in_range_1_16_def isScripthash_def clean_def checkPush_as_called)

theorem verify_ignores_input_result_witness:
  "2 \<le> maxOps example_script_env \<and> 1 \<le> maxStack example_script_env
   \<and> length (oversized_input example_script_env) = 2
   \<and> script_execute example_script_env no_flags (oversized_input example_script_env) empty_stack
       = Some (False, \<lparr>items = [[1]], alt = []\<rparr>)
   \<and> script_verify example_script_env no_flags (oversized_input example_script_env) []
       = Some True"
  using verify_ignores_input_result [of example_script_env]
  by (simp add: example_script_env_def oversized_input_def)

section \<open>Properties of the chain store\<close>

lemma batch_write_append [simp]:
  "batch_write d (a @ b) = batch_write (batch_write d a) b"
  by (simp add: batch_write_def)

lemma batch_write_Nil [simp]: "batch_write d [] = d"
  by (simp add: batch_write_def)

lemma batch_write_Cons [simp]: "batch_write d (x # xs) = batch_write (apply_op d x) xs"
  by (simp add: batch_write_def)


subsection \<open>The loops append to the batch\<close>














subsection \<open>What the loops do to the coin and undo keys\<close>

lemma in_keys_Cons [simp]:
  "in_keys (i # ins) = insert (K_c (prevout_hash i) (prevout_index i)) (in_keys ins)"
  by (simp add: in_keys_def)

lemma in_keys_Nil [simp]: "in_keys [] = {}"
  by (simp add: in_keys_def)

lemma out_keys_Nil [simp]: "out_keys cd t [] j = {}"
  by (simp add: out_keys_def)











subsection \<open>Connecting and disconnecting one transaction, then a block\<close>









lemma null_hash_length: "length h \<noteq> 64 \<Longrightarrow> h \<noteq> NULL_HASH"
  by (auto simp: NULL_HASH_def)

lemma isCoinbase_coinbase_tx [simp]: "isCoinbase (coinbase_tx h outs)"
  by (simp add: isCoinbase_def coinbase_tx_def)

lemma replicate4: "replicate 4 x = [x, x, x, x]"
  by (simp add: numeral_eq_Suc)

lemma connectBlock_example_block1:
  "connectBlock example_runtime example_codec example_options d example_block1 batch
     = Some (batch @ [Put (K_c ''c1'' 0) [50, 0x51]])"
  by (simp add: connectBlock_def pruneBlock_def isGenesis_def example_options_def
      example_block1_def index_tx_puts_def example_codec_def coinbase_tx_def isCoinbase_def
      Let_def)

lemma save_example:
  "save example_runtime example_codec example_options empty_chaindb example_entry1
          example_block1 True
   = Some \<lparr>db = [K_h ''ab'' \<mapsto> [0, 0, 0, 0], K_e ''ab'' \<mapsto> [1, 2, 3],
                 K_n ''00'' \<mapsto> [97, 98], K_H 1 \<mapsto> [97, 98], K_R \<mapsto> [97, 98],
                 K_b ''ab'' \<mapsto> [97, 98], K_c ''c1'' 0 \<mapsto> [50, 0x51]],
            cacheHash = [''ab'' \<mapsto> example_entry1],
            cacheHeight = [1 \<mapsto> example_entry1]\<rparr>"
  by (simp add: save_def saveBlock_def connectBlock_example_block1 Let_def
      writeUInt32LE_def buf_set_def replicate4 empty_chaindb_def)
    (simp add: example_runtime_def example_entry1_def example_codec_def example_options_def
      example_block1_def replicate4)

text \<open>
  Claim C3.  The record stored under \<open>h/\<close> plus the entry's hash should be the entry's
  height as an unsigned 32-bit little-endian integer, so that a later lookup by hash
  returns the height.  \<open>save\<close> writes the coerced Buffer instead of the height: for an
  entry of height 1 the record is four zero bytes, and once the entry is no longer
  cached \<open>getHeight\<close> answers 0.
\<close>

theorem save_height_record_ignores_height:
  "map_option (\<lambda>st. db st (K_h ''ab''))
       (save example_runtime example_codec example_options empty_chaindb example_entry1
          example_block1 True)
     = Some (Some [0, 0, 0, 0])
   \<and> u32le_bytes (ce_height example_entry1) = [1, 0, 0, 0]
   \<and> map_option (\<lambda>st. getHeight (st\<lparr>cacheHash := Map.empty, cacheHeight := Map.empty\<rparr>) ''ab'')
       (save example_runtime example_codec example_options empty_chaindb example_entry1
          example_block1 True)
     = Some (Some 0)"
  by (simp add: save_example getHeight_def null_hash_length readUInt32LE_def buf_get_def)
    (simp add: u32le_bytes_def example_entry1_def)









end
